theory Spec2Isabelle
  imports Complex_Main
begin

section \<open>JavaScript values\<close>

text \<open>
  A JavaScript string is its sequence of UTF-16 code units. The Korean literals of the
  sources are written out as code units; ASCII literals go through \<open>ascii\<close>.
  A JavaScript \<open>number\<close> is modelled as a real: rounding, NaN and the infinities of
  IEEE doubles are outside the model, and a result about a computed number is a result
  about exact arithmetic. Console output is not modelled.
\<close>

type_synonym jsstring = "nat list"

definition ascii :: "string \<Rightarrow> jsstring" where
  "ascii s = map of_char s"

text \<open>A thrown or rejected value: an \<open>Error\<close> object with its message, or anything else.\<close>

datatype js_thrown = JsError jsstring | NonError

text \<open>The state of a promise once the platform has had its say.\<close>

datatype 'a promise = Resolved 'a | Rejected js_thrown | Pending

section \<open>Distance between two coordinates (useLocationAuth, calculateDistance)\<close>

record Coordinates =
  lat :: real
  lng :: real

text \<open>
  The distance is computed in exact arithmetic here. There the quantity \<open>a\<close> lies in
  \<open>[0, 1]\<close>. In doubles the rounded \<open>a\<close> can exceed 1 when the two points are
  exactly opposite on the globe: for (0.08, 0) and (-0.08, -180) it is
  1.0000000000000002, \<open>Math.sqrt(1 - a)\<close> is NaN and so is the result, where the
  definition below gives \<open>6371000 * pi\<close>. The examples of this theory that compute
  a distance stay away from such pairs.

  \<open>Math.atan2(y, x)\<close> on reals: the angle of the point \<open>(x, y)\<close> in \<open>(-pi, pi]\<close>.
\<close>

definition atan2 :: "real \<Rightarrow> real \<Rightarrow> real" where
  "atan2 y x =
    (if 0 < x then arctan (y / x)
     else if x < 0 then (if 0 \<le> y then arctan (y / x) + pi else arctan (y / x) - pi)
     else if 0 < y then pi / 2
     else if y < 0 then - (pi / 2)
     else 0)"

definition calculateDistance :: "Coordinates \<Rightarrow> Coordinates \<Rightarrow> real" where
  "calculateDistance coord1 coord2 =
    (let R = 6371000;
         phi1 = (lat coord1 * pi) / 180;
         phi2 = (lat coord2 * pi) / 180;
         dphi = ((lat coord2 - lat coord1) * pi) / 180;
         dlam = ((lng coord2 - lng coord1) * pi) / 180;
         a = sin (dphi / 2) * sin (dphi / 2)
             + cos phi1 * cos phi2 * sin (dlam / 2) * sin (dlam / 2);
         c = 2 * atan2 (sqrt a) (sqrt (1 - a))
     in R * c)"

subsection \<open>The Haversine formula in exact arithmetic\<close>

definition radians :: "real \<Rightarrow> real" where
  "radians deg = deg * (pi / 180)"

definition earth_radius :: real where
  "earth_radius = 6371000"

definition haversine_a :: "real \<Rightarrow> real \<Rightarrow> real \<Rightarrow> real \<Rightarrow> real" where
  "haversine_a phi1 phi2 dphi dlam =
     (sin (dphi / 2))\<^sup>2 + cos phi1 * cos phi2 * (sin (dlam / 2))\<^sup>2"

definition haversine_distance :: "Coordinates \<Rightarrow> Coordinates \<Rightarrow> real" where
  "haversine_distance p q =
    (let phi1 = radians (lat p);
         phi2 = radians (lat q);
         a = haversine_a phi1 phi2 (phi2 - phi1) (radians (lng q) - radians (lng p));
         c = 2 * atan2 (sqrt a) (sqrt (1 - a))
     in earth_radius * c)"

text \<open>
  The great-circle distance itself: the radius times the central angle between the two
  points, the angle being given by the spherical law of cosines.
\<close>

definition central_angle :: "Coordinates \<Rightarrow> Coordinates \<Rightarrow> real" where
  "central_angle p q =
     arccos (sin (radians (lat p)) * sin (radians (lat q))
             + cos (radians (lat p)) * cos (radians (lat q))
               * cos (radians (lng q) - radians (lng p)))"

section \<open>The test-mode manager and the browser\<close>

text \<open>
  \<open>testModeManager\<close> is imported from \<open>data/testData\<close>; the sources call three of
  its methods. What each call returns is taken as a parameter, read anew at every call.
\<close>

record TestSpotDetail =
  contentid :: jsstring
  contenttypeid :: jsstring

record testModeManager =
  isBypassLocationCheck :: bool
  isTestMode :: bool
  getTestSpotDetail :: "jsstring \<Rightarrow> TestSpotDetail option"

text \<open>
  The Geolocation API. \<open>navigator.geolocation\<close> may be absent; when present,
  \<open>getCurrentPosition\<close> answers a request with the success callback, with the error
  callback, or with neither. The error codes are the constants that the error object
  carries, with the values the Geolocation API gives them.
\<close>

record PositionOptions =
  enableHighAccuracy :: bool
  timeout :: nat
  maximumAge :: nat

record GeolocationCoordinates =
  latitude :: real
  longitude :: real
  accuracy :: real

datatype geolocation_reply =
    SuccessCallback GeolocationCoordinates
  | ErrorCallback nat
  | NoCallback

definition PERMISSION_DENIED :: nat where
  "PERMISSION_DENIED = 1"

definition POSITION_UNAVAILABLE :: nat where
  "POSITION_UNAVAILABLE = 2"

definition TIMEOUT :: nat where
  "TIMEOUT = 3"

text \<open>
  The Kakao Maps script. \<open>OnLoadReady\<close>: the script's \<open>onload\<close> fires with
  \<open>window.kakao.maps\<close> present and \<open>kakao.maps.load\<close> runs its callback.
  \<open>OnLoadNoKakao\<close>: \<open>onload\<close> fires without it. \<open>OnError\<close>: \<open>onerror\<close> fires.
  \<open>NoScriptReply\<close>: none of the callbacks ever runs.
\<close>

datatype script_reply = OnLoadReady | OnLoadNoKakao | OnError | NoScriptReply

record platform =
  geolocation :: "(PositionOptions \<Rightarrow> geolocation_reply) option"
  windowKakaoMaps :: bool
  scriptReply :: script_reply

section \<open>The hook useLocationAuth\<close>

text \<open>
  The hook is modelled by its state, by one render as a function of the state, and by
  its callbacks getCurrentLocation, getCurrentLocationWithKakao and loadKakaoMaps.
  watchLocation and the effect that runs at mount are left out.
\<close>

subsection \<open>State\<close>

text \<open>
  \<open>hook_vars\<close> holds the four values that are both \<open>useState\<close> cells and fields of
  the hook's result. The state adds the fifth cell and the cell of the one \<open>useMemo\<close>;
  the result adds the two values computed during a render.
\<close>

record hook_vars =
  isLocationEnabled :: bool
  currentLocation :: "Coordinates option"
  locationError :: "jsstring option"
  isLoading :: bool

record hook_state = hook_vars +
  isKakaoLoaded :: bool
  isWithinRangeMemo :: "((real option \<times> real) \<times> bool) option"

record LocationAuthResult = hook_vars +
  isWithinRange :: bool
  distance :: "real option"

record UseLocationAuthProps =
  targetLocation :: Coordinates
  allowedRadius :: "real option"

definition initial_state :: hook_state where
  "initial_state =
     \<lparr>isLocationEnabled = False, currentLocation = None, locationError = None,
      isLoading = False, isKakaoLoaded = False, isWithinRangeMemo = None\<rparr>"

subsection \<open>Effects of the callbacks\<close>

text \<open>
  A callback of the hook is modelled by the sequence of effects it performs: calls of
  the state setters, calls of the browser, and the points where it awaits a promise.
\<close>

datatype effect =
    SetCurrentLocation "Coordinates option"
  | SetLocationError "jsstring option"
  | SetIsLocationEnabled bool
  | SetIsLoading bool
  | SetIsKakaoLoaded bool
  | AppendScript
  | GetCurrentPosition PositionOptions
  | Await

fun apply_effect :: "effect \<Rightarrow> hook_state \<Rightarrow> hook_state" where
  "apply_effect (SetCurrentLocation v) st = st\<lparr>currentLocation := v\<rparr>"
| "apply_effect (SetLocationError v) st = st\<lparr>locationError := v\<rparr>"
| "apply_effect (SetIsLocationEnabled v) st = st\<lparr>isLocationEnabled := v\<rparr>"
| "apply_effect (SetIsLoading v) st = st\<lparr>isLoading := v\<rparr>"
| "apply_effect (SetIsKakaoLoaded v) st = st\<lparr>isKakaoLoaded := v\<rparr>"
| "apply_effect AppendScript st = st"
| "apply_effect (GetCurrentPosition opts) st = st"
| "apply_effect Await st = st"

definition run_effects :: "effect list \<Rightarrow> hook_state \<Rightarrow> hook_state" where
  "run_effects es st = fold apply_effect es st"

text \<open>The effects a callback performs before it first gives up control.\<close>

definition before_first_await :: "effect list \<Rightarrow> effect list" where
  "before_first_await es = takeWhile (\<lambda>e. e \<noteq> Await) es"

text \<open>
  A call that returns a promise: the effects it performs before returning, the effects
  its callbacks perform before the promise settles, and how the promise settles.
\<close>

record 'a async =
  sync_effects :: "effect list"
  late_effects :: "effect list"
  outcome :: "'a promise"

definition await :: "'a async \<Rightarrow> effect list \<times> 'a promise" where
  "await m = (sync_effects m @ [Await] @ late_effects m, outcome m)"

subsection \<open>String literals of the hook\<close>

definition msg_kakao_api_load_failed :: jsstring where
  "msg_kakao_api_load_failed =
     [52852, 52852, 50724, 47605, 32, 65, 80, 73, 32, 47196, 46300, 32, 49892, 54056]"

definition msg_kakao_script_load_failed :: jsstring where
  "msg_kakao_script_load_failed =
     [52852, 52852, 50724, 47605, 32, 49828, 53356, 47549, 53944, 32, 47196, 46300, 32,
      49892, 54056]"

definition msg_unsupported_browser :: jsstring where
  "msg_unsupported_browser =
     [51060, 32, 48652, 46972, 50864, 51200, 45716, 32, 50948, 52824, 32, 49436, 48708,
      49828, 47484, 32, 51648, 50896, 54616, 51648, 32, 50506, 49845, 45768, 45796, 46]"

definition msg_permission_denied :: jsstring where
  "msg_permission_denied =
     [50948, 52824, 32, 51221, 48372, 32, 51217, 44540, 51060, 32, 44144, 48512, 46104,
      50632, 49845, 45768, 45796, 46, 32, 48652, 46972, 50864, 51200, 32, 49444, 51221,
      50640, 49436, 32, 50948, 52824, 32, 44428, 54620, 51012, 32, 54728, 50857, 54644,
      51452, 49464, 50836, 46]"

definition msg_position_unavailable :: jsstring where
  "msg_position_unavailable =
     [50948, 52824, 32, 51221, 48372, 47484, 32, 49324, 50857, 54624, 32, 49688, 32,
      50630, 49845, 45768, 45796, 46, 32, 71, 80, 83, 44032, 32, 53020, 51256, 51080,
      45716, 51648, 32, 54869, 51064, 54644, 51452, 49464, 50836, 46]"

definition msg_timeout :: jsstring where
  "msg_timeout =
     [50948, 52824, 32, 51221, 48372, 32, 50836, 52397, 32, 49884, 44036, 51060, 32,
      52488, 44284, 46104, 50632, 49845, 45768, 45796, 46]"

definition msg_generic_error :: jsstring where
  "msg_generic_error =
     [50948, 52824, 32, 51221, 48372, 47484, 32, 44032, 51256, 50724, 45716, 32, 51473,
      32, 50724, 47448, 44032, 32, 48156, 49373, 54664, 49845, 45768, 45796, 46]"

definition msg_not_an_error :: jsstring where
  "msg_not_an_error =
     [50948, 52824, 32, 51221, 48372, 47484, 32, 44032, 51256, 50724, 45716, 45936, 32,
      49892, 54056, 54664, 49845, 45768, 45796, 46]"

subsection \<open>loadKakaoMaps\<close>

definition loadKakaoMaps :: "platform \<Rightarrow> unit async" where
  "loadKakaoMaps pf =
    (if windowKakaoMaps pf then
       \<lparr>sync_effects = [SetIsKakaoLoaded True], late_effects = [], outcome = Resolved ()\<rparr>
     else
       (case scriptReply pf of
          OnLoadReady \<Rightarrow>
            \<lparr>sync_effects = [AppendScript], late_effects = [SetIsKakaoLoaded True],
             outcome = Resolved ()\<rparr>
        | OnLoadNoKakao \<Rightarrow>
            \<lparr>sync_effects = [AppendScript], late_effects = [],
             outcome = Rejected (JsError msg_kakao_api_load_failed)\<rparr>
        | OnError \<Rightarrow>
            \<lparr>sync_effects = [AppendScript], late_effects = [],
             outcome = Rejected (JsError msg_kakao_script_load_failed)\<rparr>
        | NoScriptReply \<Rightarrow>
            \<lparr>sync_effects = [AppendScript], late_effects = [], outcome = Pending\<rparr>))"

subsection \<open>getCurrentLocationWithKakao\<close>

definition options :: PositionOptions where
  "options = \<lparr>enableHighAccuracy = True, timeout = 15000, maximumAge = 60000\<rparr>"

text \<open>The \<open>switch\<close> of the error callback.\<close>

definition errorMessage :: "nat \<Rightarrow> jsstring" where
  "errorMessage code =
    (if code = PERMISSION_DENIED then msg_permission_denied
     else if code = POSITION_UNAVAILABLE then msg_position_unavailable
     else if code = TIMEOUT then msg_timeout
     else msg_generic_error)"

text \<open>
  The address check through the Kakao geocoder in the success callback only writes to
  the console and its exceptions are caught there; it has no counterpart here.
\<close>

definition getCurrentLocationWithKakao :: "platform \<Rightarrow> Coordinates async" where
  "getCurrentLocationWithKakao pf =
    (case geolocation pf of
       None \<Rightarrow>
         \<lparr>sync_effects = [], late_effects = [],
          outcome = Rejected (JsError msg_unsupported_browser)\<rparr>
     | Some getCurrentPosition \<Rightarrow>
         \<lparr>sync_effects = [GetCurrentPosition options], late_effects = [],
          outcome =
            (case getCurrentPosition options of
               SuccessCallback coords \<Rightarrow>
                 Resolved \<lparr>lat = latitude coords, lng = longitude coords\<rparr>
             | ErrorCallback code \<Rightarrow> Rejected (JsError (errorMessage code))
             | NoCallback \<Rightarrow> Pending)\<rparr>)"

subsection \<open>getCurrentLocation\<close>

text \<open>
  The body of the \<open>try\<close> block. \<open>kakaoLoaded\<close> is the value of \<open>isKakaoLoaded\<close>
  that the closure captured at the render that created it.
\<close>

definition getCurrentLocation_try :: "platform \<Rightarrow> bool \<Rightarrow> effect list \<times> Coordinates promise" where
  "getCurrentLocation_try pf kakaoLoaded =
    (let (es1, r1) = (if \<not> kakaoLoaded then await (loadKakaoMaps pf) else ([], Resolved ()))
     in case r1 of
          Resolved u \<Rightarrow>
            (let (es2, r2) = await (getCurrentLocationWithKakao pf) in (es1 @ es2, r2))
        | Rejected e \<Rightarrow> (es1, Rejected e)
        | Pending \<Rightarrow> (es1, Pending))"

definition getCurrentLocation ::
    "testModeManager \<Rightarrow> platform \<Rightarrow> bool \<Rightarrow> effect list \<times> unit promise" where
  "getCurrentLocation tm pf kakaoLoaded =
    (if isBypassLocationCheck tm then
       ([SetCurrentLocation (Some \<lparr>lat = 35.5384, lng = 129.3114\<rparr>),
         SetIsLocationEnabled True], Resolved ())
     else
       (let (es, r) = getCurrentLocation_try pf kakaoLoaded
        in case r of
             Resolved coords \<Rightarrow>
               ([SetIsLoading True, SetLocationError None] @ es
                @ [SetCurrentLocation (Some coords), SetIsLocationEnabled True,
                   SetLocationError None]
                @ [SetIsLoading False], Resolved ())
           | Rejected error \<Rightarrow>
               ([SetIsLoading True, SetLocationError None] @ es
                @ [SetLocationError
                     (Some (case error of JsError message \<Rightarrow> message
                                        | NonError \<Rightarrow> msg_not_an_error)),
                   SetIsLocationEnabled False]
                @ [SetIsLoading False], Resolved ())
           | Pending \<Rightarrow>
               ([SetIsLoading True, SetLocationError None] @ es, Pending)))"

subsection \<open>A render of the hook\<close>

text \<open>
  \<open>useMemo(calculateValue, dependencies)\<close>: the first render stores the computed value
  with its dependencies; a later render returns the stored value when every dependency
  is the same as at the render that stored it, and computes and stores again otherwise.
\<close>

definition useMemo :: "'v \<Rightarrow> 'd \<Rightarrow> ('d \<times> 'v) option \<Rightarrow> 'v \<times> ('d \<times> 'v) option" where
  "useMemo calculateValue dependencies cell =
    (case cell of
       None \<Rightarrow> (calculateValue, Some (dependencies, calculateValue))
     | Some (prevDependencies, prevValue) \<Rightarrow>
         if prevDependencies = dependencies then (prevValue, cell)
         else (calculateValue, Some (dependencies, calculateValue)))"

text \<open>The function passed to \<open>useMemo\<close> for \<open>isWithinRange\<close>.\<close>

definition isWithinRange_calculate :: "testModeManager \<Rightarrow> real option \<Rightarrow> real \<Rightarrow> bool" where
  "isWithinRange_calculate tm dst radius =
    (if isBypassLocationCheck tm then True
     else (case dst of None \<Rightarrow> False | Some d \<Rightarrow> d \<le> radius))"

definition useLocationAuth ::
    "testModeManager \<Rightarrow> UseLocationAuthProps \<Rightarrow> hook_state \<Rightarrow> LocationAuthResult \<times> hook_state" where
  "useLocationAuth tm props st =
    (let radius = (case allowedRadius props of None \<Rightarrow> 300 | Some r \<Rightarrow> r);
         dst = (case currentLocation st of
                   Some cur \<Rightarrow> Some (calculateDistance cur (targetLocation props))
                 | None \<Rightarrow> None);
         (memoized, cell) = useMemo (isWithinRange_calculate tm dst radius) (dst, radius)
                            (isWithinRangeMemo st)
     in (\<lparr>isLocationEnabled = isLocationEnabled st, currentLocation = currentLocation st,
          locationError = locationError st, isLoading = isLoading st,
          isWithinRange = memoized, distance = dst\<rparr>,
         st\<lparr>isWithinRangeMemo := cell\<rparr>))"

text \<open>
  The stored value of the memo cell agrees with what the bypass flag \<open>tm\<close> gives on the
  stored dependencies.
\<close>

definition memo_agrees :: "testModeManager \<Rightarrow> hook_state \<Rightarrow> bool" where
  "memo_agrees tm st =
    (case isWithinRangeMemo st of
       None \<Rightarrow> True
     | Some ((dst, radius), v) \<Rightarrow> v = isWithinRange_calculate tm dst radius)"

text \<open>
  The states of the hook while the test-mode manager keeps giving the same answers:
  from the initial state, by renders and by calls of the setters.
\<close>

inductive reachable_under :: "testModeManager \<Rightarrow> hook_state \<Rightarrow> bool"
  for tm :: testModeManager where
    at_mount: "reachable_under tm initial_state"
  | after_render: "reachable_under tm st \<Longrightarrow> reachable_under tm (snd (useLocationAuth tm props st))"
  | after_effect: "reachable_under tm st \<Longrightarrow> reachable_under tm (apply_effect e st)"

section \<open>The component SpotList\<close>

text \<open>
  Modelled from the spec: the type \<open>TouristSpot\<close> (\<open>types/tourist\<close>) is not among the
  sources. The record has the fields that SpotList reads, and the coordinates that the
  glossary gives a tourist spot. The fields \<open>id\<close>, \<open>name\<close>, \<open>type\<close> and \<open>image\<close>
  carry the prefix \<open>spot_\<close>; \<open>spot_type\<close> is the text that a template literal makes
  of \<open>spot.type\<close>.
\<close>

record TouristSpot =
  spot_id :: jsstring
  spot_name :: jsstring
  spot_type :: jsstring
  spot_image :: jsstring
  category :: jsstring
  district :: jsstring
  description :: jsstring
  address :: jsstring
  coins :: int
  visited :: bool
  coordinates :: Coordinates

subsection \<open>String literals of the component\<close>

definition name_jung :: jsstring where
  "name_jung = [51473, 44396]"

definition name_nam :: jsstring where
  "name_nam = [45224, 44396]"

definition name_dong :: jsstring where
  "name_dong = [46041, 44396]"

definition name_buk :: jsstring where
  "name_buk = [48513, 44396]"

definition name_ulju :: jsstring where
  "name_ulju = [50872, 51452, 44400]"

definition name_other :: jsstring where
  "name_other = [44592, 53440]"

definition cat_culture :: jsstring where
  "cat_culture = [47928, 54868, 44288, 44305]"

definition cat_nature :: jsstring where
  "cat_nature = [51088, 50672, 44288, 44305]"

definition cat_history :: jsstring where
  "cat_history = [50669, 49324, 44288, 44305]"

definition cat_shopping :: jsstring where
  "cat_shopping = [49660, 54609]"

definition cat_lodging :: jsstring where
  "cat_lodging = [49689, 48149]"

definition cat_experience :: jsstring where
  "cat_experience = [52404, 54744, 44288, 44305]"

definition cat_leisure :: jsstring where
  "cat_leisure = [47112, 51200, 49828, 54252, 52768]"

definition cat_food :: jsstring where
  "cat_food = [51020, 49885]"

definition cat_course :: jsstring where
  "cat_course = [52628, 52380, 53076, 49828]"

definition cat_festival :: jsstring where
  "cat_festival = [52629, 51228, 47, 44277, 50672, 47, 54665, 49324]"

definition txt_visit_complete :: jsstring where
  "txt_visit_complete = [48169, 47928, 32, 50756, 47308]"

subsection \<open>Look-up tables\<close>

record DistrictInfo =
  name :: jsstring
  color :: jsstring
  textColor :: jsstring

definition getDistrictInfo :: "jsstring \<Rightarrow> DistrictInfo" where
  "getDistrictInfo d =
    (if d = ascii ''jung'' then
       \<lparr>name = name_jung, color = ascii ''bg-red-500'', textColor = ascii ''text-red-600''\<rparr>
     else if d = ascii ''nam'' then
       \<lparr>name = name_nam, color = ascii ''bg-blue-500'', textColor = ascii ''text-blue-600''\<rparr>
     else if d = ascii ''dong'' then
       \<lparr>name = name_dong, color = ascii ''bg-yellow-500'',
        textColor = ascii ''text-yellow-600''\<rparr>
     else if d = ascii ''buk'' then
       \<lparr>name = name_buk, color = ascii ''bg-purple-500'',
        textColor = ascii ''text-purple-600''\<rparr>
     else if d = ascii ''ulju'' then
       \<lparr>name = name_ulju, color = ascii ''bg-green-500'',
        textColor = ascii ''text-green-600''\<rparr>
     else
       \<lparr>name = name_other, color = ascii ''bg-gray-500'', textColor = ascii ''text-gray-600''\<rparr>)"

datatype icon =
    MapPin | Coins | CheckCircle | Star | Building | ShoppingBag | Bed | Camera | Zap
  | TreePine | Utensils | Route | Calendar

definition getCategoryIcon :: "jsstring \<Rightarrow> icon" where
  "getCategoryIcon c =
    (if c = cat_culture then Star
     else if c = cat_nature then TreePine
     else if c = cat_history then Building
     else if c = cat_shopping then ShoppingBag
     else if c = cat_lodging then Bed
     else if c = cat_experience then Camera
     else if c = cat_leisure then Zap
     else if c = cat_food then Utensils
     else if c = cat_course then Route
     else if c = cat_festival then Calendar
     else MapPin)"

definition getCategoryColor :: "jsstring \<Rightarrow> jsstring" where
  "getCategoryColor c =
    (if c = cat_culture then ascii ''text-blue-600 bg-blue-50''
     else if c = cat_nature then ascii ''text-emerald-600 bg-emerald-50''
     else if c = cat_history then ascii ''text-violet-600 bg-violet-50''
     else if c = cat_shopping then ascii ''text-emerald-600 bg-emerald-50''
     else if c = cat_lodging then ascii ''text-amber-600 bg-amber-50''
     else if c = cat_experience then ascii ''text-pink-600 bg-pink-50''
     else if c = cat_leisure then ascii ''text-red-600 bg-red-50''
     else if c = cat_food then ascii ''text-orange-600 bg-orange-50''
     else if c = cat_course then ascii ''text-violet-600 bg-violet-50''
     else if c = cat_festival then ascii ''text-red-600 bg-red-50''
     else ascii ''text-gray-600 bg-gray-50'')"

subsection \<open>handleCheckInClick\<close>

text \<open>
  What a click does, in order. \<open>encodeURIComponent\<close> is the browser's; it is a
  parameter, \<open>None\<close> where it throws \<open>URIError\<close>.
\<close>

datatype click_effect = PreventDefault | StopPropagation | Navigate jsstring | ThrowURIError

definition handleCheckInClick ::
    "testModeManager \<Rightarrow> (jsstring \<Rightarrow> jsstring option) \<Rightarrow> TouristSpot \<Rightarrow> click_effect list" where
  "handleCheckInClick tm encodeURIComponent spot =
    [PreventDefault, StopPropagation] @
    (if \<not> visited spot then
       (if isTestMode tm then
          (case getTestSpotDetail tm (spot_id spot) of
             Some testSpot \<Rightarrow>
               (case encodeURIComponent (spot_id spot) of
                  Some encoded \<Rightarrow>
                    [Navigate (ascii ''/checkin?contentId='' @ contentid testSpot
                               @ ascii ''&contentType='' @ contenttypeid testSpot
                               @ ascii ''&fromSpotId='' @ encoded)]
                | None \<Rightarrow> [ThrowURIError])
           | None \<Rightarrow> [])
        else
          (case encodeURIComponent (spot_id spot) of
             Some encoded \<Rightarrow>
               [Navigate (ascii ''/checkin?contentId='' @ spot_id spot
                          @ ascii ''&contentType='' @ spot_type spot
                          @ ascii ''&fromSpotId='' @ encoded)]
           | None \<Rightarrow> [ThrowURIError]))
     else [])"

subsection \<open>The rendered list\<close>

text \<open>
  The foot of a card: the visit-complete indicator with its text, or the detail link
  with its target next to the check-in button, whose click passes the spot to
  \<open>handleCheckInClick\<close>.
\<close>

datatype card_footer = VisitComplete icon jsstring | Actions jsstring TouristSpot

record card =
  key :: jsstring
  stateClass :: jsstring
  animationIndex :: nat
  backgroundImage :: "jsstring option"
  placeholderIcon :: "(jsstring \<times> icon) option"
  visitedOverlay :: bool
  title :: jsstring
  coinBadge :: int
  districtDot :: jsstring
  districtLabel :: "jsstring \<times> jsstring"
  categoryBadge :: "jsstring \<times> icon \<times> jsstring"
  descriptionText :: jsstring
  addressText :: jsstring
  footer :: card_footer

text \<open>
  The function mapped over the spots, with the spot's index. The style's animation
  delay is the text of the double \<open>index * 0.1\<close> followed by \<open>s\<close>; the card keeps
  the index it is printed from. \<open>districtLabel\<close> is the text colour and the name, \<open>categoryBadge\<close> the
  colour classes, the icon and the label.
\<close>

definition spotCard :: "nat \<Rightarrow> TouristSpot \<Rightarrow> card" where
  "spotCard index spot =
    (let districtInfo = getDistrictInfo (district spot);
         categoryColor = getCategoryColor (category spot)
     in \<lparr>key = spot_id spot,
         stateClass = (if visited spot then ascii ''opacity-75''
                       else ascii ''hover:shadow-md hover:scale-[1.02]''),
         animationIndex = index,
         backgroundImage = (if spot_image spot \<noteq> ascii ''/placeholder-image.jpg''
                            then Some (ascii ''url('' @ spot_image spot @ ascii '')'')
                            else None),
         placeholderIcon = (if spot_image spot = ascii ''/placeholder-image.jpg''
                            then Some (categoryColor, getCategoryIcon (category spot))
                            else None),
         visitedOverlay = visited spot,
         title = spot_name spot,
         coinBadge = coins spot,
         districtDot = color districtInfo,
         districtLabel = (textColor districtInfo, name districtInfo),
         categoryBadge = (categoryColor, getCategoryIcon (category spot), category spot),
         descriptionText = description spot,
         addressText = address spot,
         footer = (if visited spot then VisitComplete CheckCircle txt_visit_complete
                   else Actions (ascii ''/spot/'' @ spot_id spot) spot)\<rparr>)"

record view =
  cards :: "card list"
  emptyNotice :: bool

definition SpotList :: "TouristSpot list \<Rightarrow> view" where
  "SpotList spots =
     \<lparr>cards = map (\<lambda>(index, spot). spotCard index spot) (enumerate 0 spots),
      emptyNotice = (length spots = 0)\<rparr>"

section \<open>The check-in action\<close>

text \<open>
  Modelled from the spec: the check-in itself, performed by the \<open>/checkin\<close> page that
  \<open>handleCheckInClick\<close> navigates to, is not among the sources. Following the glossary,
  a check-in made within the allowed radius of the spot's coordinates marks the spot
  visited and adds the spot's coins to the user's; farther away no check-in takes place.
\<close>

definition checkIn ::
    "Coordinates \<Rightarrow> real \<Rightarrow> TouristSpot \<Rightarrow> int \<Rightarrow> (TouristSpot \<times> int) option" where
  "checkIn userLocation radius spot userCoins =
    (if calculateDistance userLocation (coordinates spot) \<le> radius
     then Some (spot\<lparr>visited := True\<rparr>, userCoins + coins spot)
     else None)"

section \<open>Example inputs\<close>

definition tm_on :: testModeManager where
  "tm_on = \<lparr>isBypassLocationCheck = True, isTestMode = True,
            getTestSpotDetail = (\<lambda>i. None)\<rparr>"

definition tm_off :: testModeManager where
  "tm_off = \<lparr>isBypassLocationCheck = False, isTestMode = True,
             getTestSpotDetail = (\<lambda>i. None)\<rparr>"

definition pf_unsupported :: platform where
  "pf_unsupported = \<lparr>geolocation = None, windowKakaoMaps = True, scriptReply = OnLoadReady\<rparr>"

definition pf_granted :: platform where
  "pf_granted =
     \<lparr>geolocation = Some (\<lambda>opts. SuccessCallback
                           \<lparr>latitude = 35.55, longitude = 129.32, accuracy = 20\<rparr>),
      windowKakaoMaps = False, scriptReply = OnLoadReady\<rparr>"

definition pf_timeout :: platform where
  "pf_timeout =
     \<lparr>geolocation = Some (\<lambda>opts. if timeout opts = 15000 then ErrorCallback 3 else NoCallback),
      windowKakaoMaps = True, scriptReply = OnLoadReady\<rparr>"

definition example_spot :: TouristSpot where
  "example_spot =
     \<lparr>spot_id = ascii ''126508'', spot_name = ascii ''Taehwagang'', spot_type = ascii ''12'',
      spot_image = ascii ''/placeholder-image.jpg'', category = cat_nature,
      district = ascii ''nam'', description = [], address = [], coins = 10, visited = False,
      coordinates = \<lparr>lat = 35.5384, lng = 129.3114\<rparr>\<rparr>"

definition antipode_props :: UseLocationAuthProps where
  "antipode_props =
     \<lparr>targetLocation = \<lparr>lat = - 35.5384, lng = - 50.6886\<rparr>, allowedRadius = None\<rparr>"

definition meridian_props :: UseLocationAuthProps where
  "meridian_props =
     \<lparr>targetLocation = \<lparr>lat = - 54.4616, lng = 129.3114\<rparr>, allowedRadius = None\<rparr>"

section \<open>Facts about the distance\<close>

subsection \<open>Trigonometric facts\<close>

lemma sin_half_sq: "sin (x / 2) * sin (x / 2) = (1 - cos x) / (2::real)"
  using cos_double_sin[of "x / 2"] by (simp add: power2_eq_square)

lemma haversine_a_dot:
  "haversine_a p1 p2 (p2 - p1) dl = (1 - (sin p1 * sin p2 + cos p1 * cos p2 * cos dl)) / 2"
proof -
  have c: "cos (p2 - p1) = cos p2 * cos p1 + sin p2 * sin p1" by (rule cos_diff)
  have "haversine_a p1 p2 (p2 - p1) dl
        = (1 - cos (p2 - p1)) / 2 + cos p1 * cos p2 * ((1 - cos dl) / 2)"
    unfolding haversine_a_def power2_eq_square by (simp only: sin_half_sq mult.assoc)
  also have "\<dots> = (1 - (sin p1 * sin p2 + cos p1 * cos p2 * cos dl)) / 2"
    unfolding c by (simp add: field_simps)
  finally show ?thesis .
qed

lemma dot_product_bound: "\<bar>sin p1 * sin p2 + cos p1 * cos p2 * cos dl\<bar> \<le> (1::real)"
proof -
  define t where "t = (1 + cos dl) / 2"
  define u where "u = cos (p1 - p2)"
  define v where "v = - cos (p1 + p2)"
  have "0 \<le> 1 + cos dl"
    using cos_ge_minus_one[of dl] by linarith
  then have "0 \<le> t"
    unfolding t_def by simp
  moreover have "t \<le> 1"
    using cos_le_one[of dl] unfolding t_def by simp
  ultimately have t: "0 \<le> t" "t \<le> 1" by simp_all
  have u: "\<bar>u\<bar> \<le> 1" and v: "\<bar>v\<bar> \<le> 1" by (simp_all add: u_def v_def)
  have eq: "sin p1 * sin p2 + cos p1 * cos p2 * cos dl = t * u + (1 - t) * v"
    unfolding t_def u_def v_def cos_diff cos_add by (simp add: field_simps)
  have "\<bar>t * u + (1 - t) * v\<bar> \<le> \<bar>t * u\<bar> + \<bar>(1 - t) * v\<bar>" by (rule abs_triangle_ineq)
  also have "\<dots> = t * \<bar>u\<bar> + (1 - t) * \<bar>v\<bar>" using t by (simp add: abs_mult)
  also have "\<dots> \<le> t * 1 + (1 - t) * 1"
    using t u v by (intro add_mono mult_left_mono) simp_all
  finally show ?thesis unfolding eq by simp
qed

text \<open>
  In exact arithmetic the quantity under the two square roots lies in \<open>[0, 1]\<close>. The
  code does not clamp it, and in doubles it can round above 1.
\<close>

lemma haversine_a_range:
  "0 \<le> haversine_a p1 p2 (p2 - p1) dl" "haversine_a p1 p2 (p2 - p1) dl \<le> 1"
  using dot_product_bound[of p1 p2 dl] unfolding haversine_a_dot
  by (simp_all add: abs_le_iff)

lemma two_atan2_sqrt:
  assumes a0: "0 \<le> a" and a1: "a \<le> (1::real)"
  shows "2 * atan2 (sqrt a) (sqrt (1 - a)) = arccos (1 - 2 * a)"
proof (cases "a = 1")
  case True
  then show ?thesis by (simp add: atan2_def)
next
  case False
  with a1 have lt: "a < 1" by simp
  define th where "th = arccos (1 - 2 * a)"
  have rng: "- 1 \<le> 1 - 2 * a" "1 - 2 * a \<le> 1" using a0 a1 by simp_all
  have cth: "cos th = 1 - 2 * a" unfolding th_def using rng by (rule cos_arccos)
  have th0: "0 \<le> th" unfolding th_def using rng by (rule arccos_lbound)
  have thpi: "th \<le> pi" unfolding th_def using rng by (rule arccos_ubound)
  have "th \<noteq> pi"
  proof
    assume "th = pi"
    with cth have "1 - 2 * a = - 1" by simp
    with lt show False by simp
  qed
  with thpi have thlt: "th < pi" by simp
  have h0: "0 \<le> th / 2" and h1: "th / 2 < pi / 2" using th0 thlt by simp_all
  have sin_nn: "0 \<le> sin (th / 2)" using h0 h1 by (intro sin_ge_zero) simp_all
  have cos_pos: "0 < cos (th / 2)" using h0 h1 by (intro cos_gt_zero_pi) simp_all
  have "sin (th / 2) * sin (th / 2) = a" using sin_half_sq[of th] cth by simp
  then have s2: "(sin (th / 2))\<^sup>2 = a" by (simp add: power2_eq_square)
  then have sq: "sqrt a = sin (th / 2)" using sin_nn by (metis real_sqrt_abs abs_of_nonneg)
  have "(cos (th / 2))\<^sup>2 = 1 - a"
    using s2 sin_cos_squared_add[of "th / 2"] by simp
  then have cq: "sqrt (1 - a) = cos (th / 2)"
    using cos_pos by (metis real_sqrt_abs abs_of_pos)
  have "atan2 (sqrt a) (sqrt (1 - a)) = arctan (sin (th / 2) / cos (th / 2))"
    unfolding sq cq atan2_def using cos_pos by simp
  also have "\<dots> = arctan (tan (th / 2))" by (simp add: tan_def)
  also have "\<dots> = th / 2" using h0 h1 by (intro arctan_tan) simp_all
  finally show ?thesis unfolding th_def by simp
qed

lemma calculateDistance_as_spec: "calculateDistance p q = haversine_distance p q"
proof -
  have d: "(x - y) * pi / 180 = x * (pi / 180) - y * (pi / 180)" for x y :: real
    by (simp add: field_simps)
  show ?thesis
    unfolding calculateDistance_def haversine_distance_def haversine_a_def radians_def
      earth_radius_def Let_def power2_eq_square d
    by (simp add: mult.assoc)
qed

lemma haversine_distance_great_circle:
  "haversine_distance p q = earth_radius * central_angle p q"
proof -
  define a where "a = haversine_a (radians (lat p)) (radians (lat q))
     (radians (lat q) - radians (lat p)) (radians (lng q) - radians (lng p))"
  have "0 \<le> a" "a \<le> 1" unfolding a_def by (rule haversine_a_range)+
  then have "2 * atan2 (sqrt a) (sqrt (1 - a)) = arccos (1 - 2 * a)"
    by (rule two_atan2_sqrt)
  moreover have "1 - 2 * a = sin (radians (lat p)) * sin (radians (lat q))
             + cos (radians (lat p)) * cos (radians (lat q))
               * cos (radians (lng q) - radians (lng p))"
    unfolding a_def haversine_a_dot by (simp add: field_simps)
  ultimately show ?thesis
    unfolding haversine_distance_def central_angle_def Let_def a_def by simp
qed

lemma sin_sq_neg: "sin (- x) * sin (- x) = sin x * sin (x::real)"
  by simp

section \<open>Facts about the hook\<close>

lemma ascii_simps [simp]: "ascii [] = []" "ascii (c # cs) = of_char c # ascii cs"
  by (simp_all add: ascii_def)

lemma run_effects_Nil: "run_effects [] st = st"
  by (simp add: run_effects_def)

lemma run_effects_Cons: "run_effects (e # es) st = run_effects es (apply_effect e st)"
  by (simp add: run_effects_def)

lemma run_effects_append: "run_effects (es @ es') st = run_effects es' (run_effects es st)"
  by (simp add: run_effects_def)

text \<open>The \<open>try\<close> block, case by case.\<close>

lemma getCurrentLocation_try_cases:
  "getCurrentLocation_try pf k =
    (if \<not> k \<and> \<not> windowKakaoMaps pf \<and> scriptReply pf = OnLoadNoKakao
       then ([AppendScript, Await], Rejected (JsError msg_kakao_api_load_failed))
     else if \<not> k \<and> \<not> windowKakaoMaps pf \<and> scriptReply pf = OnError
       then ([AppendScript, Await], Rejected (JsError msg_kakao_script_load_failed))
     else if \<not> k \<and> \<not> windowKakaoMaps pf \<and> scriptReply pf = NoScriptReply
       then ([AppendScript, Await], Pending)
     else
       ((if k then [] else if windowKakaoMaps pf then [SetIsKakaoLoaded True, Await]
         else [AppendScript, Await, SetIsKakaoLoaded True])
        @ sync_effects (getCurrentLocationWithKakao pf) @ [Await],
        outcome (getCurrentLocationWithKakao pf)))"
  by (cases "scriptReply pf")
     (auto simp: getCurrentLocation_try_def loadKakaoMaps_def await_def Let_def
         getCurrentLocationWithKakao_def split: option.splits promise.splits)

lemma try_effects_set:
  "set (fst (getCurrentLocation_try pf k))
     \<subseteq> {AppendScript, SetIsKakaoLoaded True, GetCurrentPosition options, Await}"
  by (auto simp: getCurrentLocation_try_cases getCurrentLocationWithKakao_def
           split: option.splits)

lemma try_has_await: "Await \<in> set (fst (getCurrentLocation_try pf k))"
  by (simp add: getCurrentLocation_try_cases)

text \<open>Every rejection that reaches the \<open>catch\<close> block is an \<open>Error\<close> object.\<close>

lemma try_rejected_message:
  "snd (getCurrentLocation_try pf k) = Rejected e \<Longrightarrow> \<exists>m. e = JsError m"
  by (auto simp: getCurrentLocation_try_cases getCurrentLocationWithKakao_def
           split: if_splits option.splits geolocation_reply.splits)

text \<open>
  The request resolves exactly when the script (if it is loaded at all) loads and the
  browser answers with a position, and then with that position's latitude and longitude.
\<close>

lemma try_resolved_iff:
  "snd (getCurrentLocation_try pf k) = Resolved c \<longleftrightarrow>
     (k \<or> windowKakaoMaps pf \<or> scriptReply pf = OnLoadReady)
     \<and> (\<exists>respond g. geolocation pf = Some respond \<and> respond options = SuccessCallback g
                    \<and> c = \<lparr>lat = latitude g, lng = longitude g\<rparr>)"
  by (cases "scriptReply pf")
     (auto simp: getCurrentLocation_try_cases getCurrentLocationWithKakao_def
           split: option.splits geolocation_reply.splits)

lemma run_effects_neutral:
  assumes "set es \<subseteq> {AppendScript, SetIsKakaoLoaded True, GetCurrentPosition options, Await}"
  shows "isLoading (run_effects es st) = isLoading st"
    and "locationError (run_effects es st) = locationError st"
    and "currentLocation (run_effects es st) = currentLocation st"
    and "isLocationEnabled (run_effects es st) = isLocationEnabled st"
  using assms
  by (induction es arbitrary: st) (auto simp: run_effects_Nil run_effects_Cons)

lemma before_first_await_try:
  "before_first_await ([SetIsLoading True, SetLocationError None]
      @ fst (getCurrentLocation_try pf k) @ rest)
   = [SetIsLoading True, SetLocationError None]
      @ before_first_await (fst (getCurrentLocation_try pf k))"
  using try_has_await[of pf k]
  by (simp add: before_first_await_def)

lemma before_first_await_set: "set (before_first_await es) \<subseteq> set es"
  unfolding before_first_await_def by (auto dest: set_takeWhileD)

text \<open>With the bypass on, getCurrentLocation only calls two setters.\<close>

lemma getCurrentLocation_bypass:
  assumes "isBypassLocationCheck tm"
  shows "getCurrentLocation tm pf k
         = ([SetCurrentLocation (Some \<lparr>lat = 35.5384, lng = 129.3114\<rparr>),
             SetIsLocationEnabled True], Resolved ())"
    and "currentLocation (run_effects (fst (getCurrentLocation tm pf k)) st)
         = Some \<lparr>lat = 35.5384, lng = 129.3114\<rparr>"
    and "isLocationEnabled (run_effects (fst (getCurrentLocation tm pf k)) st)"
  using assms by (simp_all add: getCurrentLocation_def run_effects_def)

lemma messages_distinct:
  "distinct [msg_permission_denied, msg_position_unavailable, msg_timeout, msg_generic_error,
             msg_unsupported_browser]"
  by (simp add: msg_permission_denied_def msg_position_unavailable_def msg_timeout_def
      msg_generic_error_def msg_unsupported_browser_def)

subsection \<open>The memo cell\<close>

lemma distance_render:
  "distance (fst (useLocationAuth tm props st))
     = map_option (\<lambda>cur. calculateDistance cur (targetLocation props)) (currentLocation st)"
  by (simp add: useLocationAuth_def Let_def split: prod.splits option.splits)

text \<open>
  A render whose memo cell is empty, or holds a value that agrees with the bypass flag
  of this render, reports what the function passed to \<open>useMemo\<close> computes now.
\<close>

lemma useLocationAuth_memo_agrees:
  assumes "memo_agrees tm st"
  shows "isWithinRange (fst (useLocationAuth tm props st))
         = isWithinRange_calculate tm (distance (fst (useLocationAuth tm props st)))
             (case allowedRadius props of None \<Rightarrow> 300 | Some r \<Rightarrow> r)"
  using assms
  by (auto simp: useLocationAuth_def memo_agrees_def useMemo_def Let_def
           split: prod.splits option.splits if_splits)

text \<open>
  Agreement with a flag is kept by every render under that flag and by every effect of
  the callbacks, and holds at the start.
\<close>

lemma memo_agrees_render:
  "memo_agrees tm st \<Longrightarrow> memo_agrees tm (snd (useLocationAuth tm props st))"
  by (auto simp: useLocationAuth_def memo_agrees_def useMemo_def Let_def
           split: prod.splits option.splits if_splits)

lemma memo_apply_effect: "isWithinRangeMemo (apply_effect e st) = isWithinRangeMemo st"
  by (cases e) simp_all

lemma memo_run_effects: "isWithinRangeMemo (run_effects es st) = isWithinRangeMemo st"
  unfolding run_effects_def
  by (induction es arbitrary: st) (simp_all add: memo_apply_effect)

lemma memo_agrees_run_effects: "memo_agrees tm (run_effects es st) = memo_agrees tm st"
  by (simp add: memo_agrees_def memo_run_effects)

lemma memo_agrees_initial: "memo_agrees tm initial_state"
  by (simp add: memo_agrees_def initial_state_def)

text \<open>While the flag never changes, every render reports the current value.\<close>

lemma reachable_memo_agrees: "reachable_under tm st \<Longrightarrow> memo_agrees tm st"
proof (induction rule: reachable_under.induct)
  case at_mount
  show ?case by (rule memo_agrees_initial)
next
  case (after_render st props)
  then show ?case by (simp add: memo_agrees_render)
next
  case (after_effect st e)
  then show ?case by (simp add: memo_agrees_def memo_apply_effect)
qed

lemma isWithinRange_constant_flag:
  assumes "reachable_under tm st"
  shows "isWithinRange (fst (useLocationAuth tm props st))
         = isWithinRange_calculate tm (distance (fst (useLocationAuth tm props st)))
             (case allowedRadius props of None \<Rightarrow> 300 | Some r \<Rightarrow> r)"
  using assms by (intro useLocationAuth_memo_agrees reachable_memo_agrees)

text \<open>
  From the fixed location of the bypass to the point a quarter of a great circle south
  on the same meridian: \<open>a\<close> is one half, far from both ends of \<open>[0, 1]\<close>, and the
  code's doubles give 10007543.4 m.
\<close>

lemma quarter_meridian_distance:
  "calculateDistance \<lparr>lat = 35.5384, lng = 129.3114\<rparr> \<lparr>lat = - 54.4616, lng = 129.3114\<rparr>
   = 6371000 * (pi / 2)"
proof -
  have dphi: "((- 54.4616 - 35.5384) * pi) / 180 / 2 = - (pi / 4)" by simp
  have dlam: "((129.3114 - 129.3114) * pi) / 180 / 2 = (0::real)" by simp
  have s: "sin (- (pi / 4)) * sin (- (pi / 4)) = (1::real) / 2"
    by (simp add: sin_45 real_sqrt_mult_self)
  have a: "sin (- (pi / 4)) * sin (- (pi / 4)) + cos x * cos y * sin 0 * sin 0 = (1::real) / 2"
    for x y :: real
    using s by simp
  have c: "atan2 (sqrt (1 / 2)) (sqrt (1 - 1 / 2)) = pi / 4"
  proof -
    have p: "0 < sqrt ((1::real) / 2)" by simp
    have "atan2 (sqrt (1 / 2)) (sqrt (1 - 1 / 2)) = arctan (sqrt (1 / 2) / sqrt (1 / 2))"
      using p by (simp add: atan2_def)
    also have "\<dots> = arctan 1" using p by simp
    finally show ?thesis by (simp add: arctan_one)
  qed
  show ?thesis
    unfolding calculateDistance_def Let_def Coordinates.simps dphi dlam a c
    by simp
qed

lemma quarter_meridian_far:
  "6371000 \<le> 6371000 * (pi / 2)" "\<not> 6371000 * (pi / 2) \<le> (300::real)"
proof -
  have "(1::real) \<le> pi / 2" using pi_ge_two by simp
  then show a: "6371000 \<le> 6371000 * (pi / 2)" by simp
  then show "\<not> 6371000 * (pi / 2) \<le> (300::real)" by simp
qed

lemma render_recomputes:
  assumes "isWithinRangeMemo st = None"
  shows "snd (useLocationAuth tm props st)
         = st\<lparr>isWithinRangeMemo :=
               Some ((map_option (\<lambda>cur. calculateDistance cur (targetLocation props))
                        (currentLocation st),
                      (case allowedRadius props of None \<Rightarrow> 300 | Some r \<Rightarrow> r)),
                     isWithinRange_calculate tm
                       (map_option (\<lambda>cur. calculateDistance cur (targetLocation props))
                          (currentLocation st))
                       (case allowedRadius props of None \<Rightarrow> 300 | Some r \<Rightarrow> r))\<rparr>"
  using assms
  by (simp add: useLocationAuth_def useMemo_def Let_def split: option.splits)

lemma render_reuses:
  assumes "isWithinRangeMemo st = Some ((d, r), v)"
    and "map_option (\<lambda>cur. calculateDistance cur (targetLocation props)) (currentLocation st) = d"
    and "(case allowedRadius props of None \<Rightarrow> 300 | Some r \<Rightarrow> r) = r"
  shows "isWithinRange (fst (useLocationAuth tm props st)) = v"
  using assms
  by (auto simp: useLocationAuth_def useMemo_def Let_def split: option.splits)

text \<open>
  What a render reports while its memo cell agrees with the bypass flag, for the three
  situations of the hook: bypass on; bypass off with a current location; bypass off
  without one.
\<close>

lemma isWithinRange_agreeing_bypass:
  assumes "memo_agrees tm st" and "isBypassLocationCheck tm"
  shows "isWithinRange (fst (useLocationAuth tm props st))"
  using useLocationAuth_memo_agrees[OF assms(1), of props] assms(2)
  by (simp add: isWithinRange_calculate_def)

lemma isWithinRange_agreeing_located:
  assumes "memo_agrees tm st" and "\<not> isBypassLocationCheck tm"
    and "currentLocation st = Some cur"
  shows "isWithinRange (fst (useLocationAuth tm props st))
         \<longleftrightarrow> calculateDistance cur (targetLocation props)
              \<le> (case allowedRadius props of None \<Rightarrow> 300 | Some r \<Rightarrow> r)"
  using useLocationAuth_memo_agrees[OF assms(1), of props] assms(2,3)
  by (simp add: isWithinRange_calculate_def distance_render)

lemma isWithinRange_agreeing_unlocated:
  assumes "memo_agrees tm st" and "\<not> isBypassLocationCheck tm"
    and "currentLocation st = None"
  shows "distance (fst (useLocationAuth tm props st)) = None"
    and "\<not> isWithinRange (fst (useLocationAuth tm props st))"
  using useLocationAuth_memo_agrees[OF assms(1), of props] assms(2,3)
  by (simp_all add: isWithinRange_calculate_def distance_render)

section \<open>Results about calculateDistance\<close>

text \<open>
  In exact arithmetic calculateDistance is the Haversine formula with Earth radius
  6371000 m, a = sin^2(dphi/2) + cos phi1 * cos phi2 * sin^2(dlambda/2),
  c = 2 * atan2(sqrt a, sqrt (1 - a)), result = R * c, the angles being the coordinates
  converted from degrees to radians; and that value is the great-circle distance, the
  radius times the central angle between the two points. This is not a statement about
  the doubles of the code at every pair: at exactly opposite points the code can return
  NaN.
\<close>

lemma calculateDistance_exact_arithmetic:
  "calculateDistance p q = haversine_distance p q
   \<and> calculateDistance p q = 6371000 * central_angle p q"
proof -
  have "calculateDistance p q = haversine_distance p q"
    by (rule calculateDistance_as_spec)
  moreover have "haversine_distance p q = 6371000 * central_angle p q"
    using haversine_distance_great_circle[of p q] by (simp add: earth_radius_def)
  ultimately show ?thesis by simp
qed

text \<open>
  Claim C10. calculateDistance is symmetric, calculateDistance(a, b) = calculateDistance(b, a)
  for every pair of coordinates, and calculateDistance(a, a) = 0 for every coordinate.
\<close>

theorem calculateDistance_symmetric_zero:
  "calculateDistance a b = calculateDistance b a \<and> calculateDistance a a = 0"
proof
  have n1: "((lat a - lat b) * pi) / 180 / 2 = - (((lat b - lat a) * pi) / 180 / 2)"
    by (simp add: field_simps)
  have n2: "((lng a - lng b) * pi) / 180 / 2 = - (((lng b - lng a) * pi) / 180 / 2)"
    by (simp add: field_simps)
  show "calculateDistance a b = calculateDistance b a"
    unfolding calculateDistance_def Let_def n1 n2 sin_sq_neg mult.assoc
    by (simp add: mult.commute mult.left_commute)
next
  show "calculateDistance a a = 0"
    by (simp add: calculateDistance_def atan2_def)
qed

section \<open>Results about the hook\<close>

text \<open>
  Claim C4. The geolocation request is made with a timeout of 15000 ms. Where the
  browser has no geolocation support the promise is rejected with the
  unsupported-browser message and no request is made. Where the browser answers with
  the error callback, the message of the rejection is a function of the error code alone:
  PERMISSION_DENIED, POSITION_UNAVAILABLE and TIMEOUT each have a message of their own,
  every other code has the generic message, and these messages differ from one another.
\<close>

theorem getCurrentLocationWithKakao_rejections:
  "timeout options = 15000
   \<and> (geolocation pf = None \<longrightarrow>
        getCurrentLocationWithKakao pf
        = \<lparr>sync_effects = [], late_effects = [],
           outcome = Rejected (JsError msg_unsupported_browser)\<rparr>)
   \<and> (\<forall>respond. geolocation pf = Some respond \<longrightarrow>
        sync_effects (getCurrentLocationWithKakao pf) = [GetCurrentPosition options]
        \<and> (\<forall>code. respond options = ErrorCallback code \<longrightarrow>
             outcome (getCurrentLocationWithKakao pf)
             = Rejected (JsError
                 (if code = PERMISSION_DENIED then msg_permission_denied
                  else if code = POSITION_UNAVAILABLE then msg_position_unavailable
                  else if code = TIMEOUT then msg_timeout
                  else msg_generic_error))))
   \<and> distinct [PERMISSION_DENIED, POSITION_UNAVAILABLE, TIMEOUT]
   \<and> distinct [msg_permission_denied, msg_position_unavailable, msg_timeout,
               msg_generic_error, msg_unsupported_browser]"
  using messages_distinct
  by (simp add: getCurrentLocationWithKakao_def errorMessage_def options_def
      PERMISSION_DENIED_def POSITION_UNAVAILABLE_def TIMEOUT_def)

theorem getCurrentLocationWithKakao_rejections_witness:
  "outcome (getCurrentLocationWithKakao pf_timeout) = Rejected (JsError msg_timeout)
   \<and> sync_effects (getCurrentLocationWithKakao pf_timeout) = [GetCurrentPosition options]
   \<and> outcome (getCurrentLocationWithKakao pf_unsupported)
       = Rejected (JsError msg_unsupported_browser)"
proof -
  have g: "geolocation pf_timeout
           = Some (\<lambda>opts. if timeout opts = 15000 then ErrorCallback 3 else NoCallback)"
    by (simp add: pf_timeout_def)
  have r: "(\<lambda>opts. if timeout opts = 15000 then ErrorCallback 3 else NoCallback) options
           = ErrorCallback 3"
    by (simp add: options_def)
  have u: "geolocation pf_unsupported = None" by (simp add: pf_unsupported_def)
  note t = getCurrentLocationWithKakao_rejections[of pf_timeout]
  note a = t[THEN conjunct2, THEN conjunct2, THEN conjunct1, rule_format, OF g]
  note b = a[THEN conjunct2, rule_format, OF r]
  note c = getCurrentLocationWithKakao_rejections[of pf_unsupported,
             THEN conjunct2, THEN conjunct1, rule_format, OF u]
  show ?thesis
    using a b c
    by (simp add: PERMISSION_DENIED_def POSITION_UNAVAILABLE_def TIMEOUT_def)
qed

text \<open>
  Claim C5. With the bypass off, getCurrentLocation goes from idle through requesting
  to granted or denied. Up to its first await it has set isLoading to true and
  locationError to null and has left currentLocation and isLocationEnabled alone. When
  the request resolves with coordinates, it ends with currentLocation set to them,
  isLocationEnabled true, locationError null and isLoading false. When the request is
  rejected, it ends with locationError set to the message of the rejection,
  isLocationEnabled false, currentLocation as it was and isLoading false. When the
  request never settles, neither does getCurrentLocation.
\<close>

theorem getCurrentLocation_state_machine:
  assumes off: "\<not> isBypassLocationCheck tm"
  shows "(let es = fst (getCurrentLocation tm pf k);
              requesting = run_effects (before_first_await es) st;
              final = run_effects es st
          in Await \<in> set es
             \<and> isLoading requesting \<and> locationError requesting = None
             \<and> currentLocation requesting = currentLocation st
             \<and> isLocationEnabled requesting = isLocationEnabled st
             \<and> (case snd (getCurrentLocation_try pf k) of
                  Resolved coords \<Rightarrow>
                    currentLocation final = Some coords \<and> isLocationEnabled final
                    \<and> locationError final = None \<and> \<not> isLoading final
                | Rejected e \<Rightarrow>
                    (\<exists>m. e = JsError m \<and> locationError final = Some m)
                    \<and> \<not> isLocationEnabled final
                    \<and> currentLocation final = currentLocation st \<and> \<not> isLoading final
                | Pending \<Rightarrow>
                    snd (getCurrentLocation tm pf k) = Pending \<and> isLoading final))"
proof -
  obtain tes r where t: "getCurrentLocation_try pf k = (tes, r)"
    by (cases "getCurrentLocation_try pf k")
  have tes: "tes = fst (getCurrentLocation_try pf k)"
    and r: "r = snd (getCurrentLocation_try pf k)"
    using t by simp_all
  have aw: "Await \<in> set tes" unfolding tes by (rule try_has_await)
  have sub: "set tes \<subseteq> {AppendScript, SetIsKakaoLoaded True, GetCurrentPosition options, Await}"
    unfolding tes by (rule try_effects_set)
  have sub': "set (before_first_await tes)
      \<subseteq> {AppendScript, SetIsKakaoLoaded True, GetCurrentPosition options, Await}"
    using before_first_await_set[of tes] sub by blast
  note n = run_effects_neutral[OF sub] and n' = run_effects_neutral[OF sub']
  have bfa: "before_first_await ([SetIsLoading True, SetLocationError None] @ tes @ rest)
       = [SetIsLoading True, SetLocationError None] @ before_first_await tes" for rest
    unfolding tes by (rule before_first_await_try)
  have bfa': "before_first_await ([SetIsLoading True, SetLocationError None] @ tes)
       = [SetIsLoading True, SetLocationError None] @ before_first_await tes"
    using bfa[of "[]"] by simp
  show ?thesis
  proof (cases r)
    case (Resolved c)
    have g: "fst (getCurrentLocation tm pf k)
          = [SetIsLoading True, SetLocationError None] @ tes
            @ [SetCurrentLocation (Some c), SetIsLocationEnabled True, SetLocationError None,
               SetIsLoading False]"
      using off t Resolved by (simp add: getCurrentLocation_def)
    show ?thesis
      unfolding Let_def g bfa r[symmetric] Resolved
      using aw by (simp add: run_effects_append run_effects_Cons run_effects_Nil n n')
  next
    case (Rejected e)
    then obtain m where m: "e = JsError m" using try_rejected_message[of pf k e] r by auto
    have g: "fst (getCurrentLocation tm pf k)
          = [SetIsLoading True, SetLocationError None] @ tes
            @ [SetLocationError (Some m), SetIsLocationEnabled False, SetIsLoading False]"
      using off t Rejected m by (simp add: getCurrentLocation_def)
    show ?thesis
      unfolding Let_def g bfa r[symmetric] Rejected
      using aw m by (simp add: run_effects_append run_effects_Cons run_effects_Nil n n')
  next
    case Pending
    have g: "getCurrentLocation tm pf k
          = ([SetIsLoading True, SetLocationError None] @ tes, Pending)"
      using off t Pending by (simp add: getCurrentLocation_def)
    show ?thesis
      unfolding Let_def g fst_conv snd_conv bfa' r[symmetric] Pending
      using aw by (simp add: run_effects_append run_effects_Cons run_effects_Nil n n')
  qed
qed

theorem getCurrentLocation_state_machine_witness:
  "\<not> isBypassLocationCheck tm_off
   \<and> isLoading (run_effects (before_first_await (fst (getCurrentLocation tm_off pf_granted False)))
                 initial_state)
   \<and> currentLocation (run_effects (fst (getCurrentLocation tm_off pf_granted False)) initial_state)
       = Some \<lparr>lat = 35.55, lng = 129.32\<rparr>
   \<and> isLocationEnabled (run_effects (fst (getCurrentLocation tm_off pf_granted False)) initial_state)
   \<and> \<not> isLoading (run_effects (fst (getCurrentLocation tm_off pf_granted False)) initial_state)
   \<and> locationError (run_effects (fst (getCurrentLocation tm_off pf_timeout False)) initial_state)
       = Some msg_timeout
   \<and> currentLocation (run_effects (fst (getCurrentLocation tm_off pf_timeout False)) initial_state)
       = None
   \<and> \<not> isLocationEnabled (run_effects (fst (getCurrentLocation tm_off pf_timeout False)) initial_state)
   \<and> \<not> isLoading (run_effects (fst (getCurrentLocation tm_off pf_timeout False)) initial_state)"
proof -
  have off: "\<not> isBypassLocationCheck tm_off" by (simp add: tm_off_def)
  have ok: "snd (getCurrentLocation_try pf_granted False)
            = Resolved \<lparr>lat = 35.55, lng = 129.32\<rparr>"
    by (simp add: getCurrentLocation_try_cases getCurrentLocationWithKakao_def pf_granted_def)
  have ko: "snd (getCurrentLocation_try pf_timeout False) = Rejected (JsError msg_timeout)"
    by (simp add: getCurrentLocation_try_cases getCurrentLocationWithKakao_def pf_timeout_def
        options_def errorMessage_def PERMISSION_DENIED_def POSITION_UNAVAILABLE_def TIMEOUT_def)
  have i: "currentLocation initial_state = None" by (simp add: initial_state_def)
  show ?thesis
    using off
      getCurrentLocation_state_machine[OF off, of pf_granted False initial_state]
      getCurrentLocation_state_machine[OF off, of pf_timeout False initial_state]
    by (simp add: Let_def ok ko i)
qed

text \<open>
  Claim C1. With the bypass off and a current location known, isWithinRange is true
  exactly when the computed distance is at most the allowed radius (300 m by default).
  The hook recomputes isWithinRange only when the distance or the radius changes, so
  this holds of a render whose memo cell agrees with the bypass flag
  (\<open>isWithinRange_agreeing_located\<close>), and fails after the flag has been switched off:
  getCurrentLocation under the bypass sets the fixed location, a render stores
  isWithinRange = true, the flag goes off, and the next render still reports true
  although the target is a quarter of a great circle away, more than 6371 km.
\<close>

theorem useLocationAuth_stale_in_range:
  "(let st1 = run_effects (fst (getCurrentLocation tm_on pf_unsupported False)) initial_state;
        st2 = snd (useLocationAuth tm_on meridian_props st1);
        r = fst (useLocationAuth tm_off meridian_props st2)
    in \<not> isBypassLocationCheck tm_off
       \<and> currentLocation r = Some \<lparr>lat = 35.5384, lng = 129.3114\<rparr>
       \<and> (\<exists>d. distance r = Some d \<and> 6371000 \<le> d \<and> \<not> d \<le> 300)
       \<and> isWithinRange r)"
proof -
  define st1 where
    "st1 = run_effects (fst (getCurrentLocation tm_on pf_unsupported False)) initial_state"
  define st2 where "st2 = snd (useLocationAuth tm_on meridian_props st1)"
  define r where "r = fst (useLocationAuth tm_off meridian_props st2)"
  have on: "isBypassLocationCheck tm_on" and off: "\<not> isBypassLocationCheck tm_off"
    by (simp_all add: tm_on_def tm_off_def)
  have cur1: "currentLocation st1 = Some \<lparr>lat = 35.5384, lng = 129.3114\<rparr>"
    unfolding st1_def using on by (rule getCurrentLocation_bypass(2))
  have memo1: "isWithinRangeMemo st1 = None"
    unfolding st1_def by (simp add: memo_run_effects initial_state_def)
  have tgt: "targetLocation meridian_props = \<lparr>lat = - 54.4616, lng = 129.3114\<rparr>"
    and rad: "allowedRadius meridian_props = None"
    by (simp_all add: meridian_props_def)
  have d1: "map_option (\<lambda>cur. calculateDistance cur (targetLocation meridian_props))
              (currentLocation st1) = Some (6371000 * (pi / 2))"
    unfolding cur1 tgt option.map quarter_meridian_distance ..
  have st2: "st2 = st1\<lparr>isWithinRangeMemo := Some ((Some (6371000 * (pi / 2)), 300), True)\<rparr>"
    unfolding st2_def
    using render_recomputes[OF memo1, of tm_on meridian_props] on
    by (simp add: d1 rad isWithinRange_calculate_def)
  have cur2: "currentLocation st2 = Some \<lparr>lat = 35.5384, lng = 129.3114\<rparr>"
    unfolding st2 using cur1 by simp
  have d2: "map_option (\<lambda>cur. calculateDistance cur (targetLocation meridian_props))
              (currentLocation st2) = Some (6371000 * (pi / 2))"
    unfolding cur2 tgt option.map quarter_meridian_distance ..
  have memo2: "isWithinRangeMemo st2 = Some ((Some (6371000 * (pi / 2)), 300), True)"
    unfolding st2 by simp
  have w: "isWithinRange r"
    unfolding r_def using render_reuses[OF memo2, of meridian_props tm_off]
    by (simp add: d2 rad)
  have dr: "distance r = Some (6371000 * (pi / 2))"
    unfolding r_def distance_render d2 ..
  have cr: "currentLocation r = Some \<lparr>lat = 35.5384, lng = 129.3114\<rparr>"
    unfolding r_def using cur2 by (simp add: useLocationAuth_def Let_def split: prod.splits)
  have ex: "\<exists>d. distance r = Some d \<and> 6371000 \<le> d \<and> \<not> d \<le> 300"
    using dr quarter_meridian_far by blast
  show ?thesis
    unfolding Let_def st1_def[symmetric] st2_def[symmetric] r_def[symmetric]
    using off cr ex w by blast
qed

text \<open>
  Claim C3. With the bypass on, getCurrentLocation makes no geolocation request and sets
  the current location to (35.5384, 129.3114) and isLocationEnabled to true
  (\<open>getCurrentLocation_bypass\<close>), and isWithinRange is true whatever the distance and
  the radius. The second part fails on a render that follows the switching on of the
  flag with the distance and the radius unchanged: the first render, bypass off and no
  location, stores false, and the render under the bypass reports that stored false.
\<close>

theorem useLocationAuth_stale_under_bypass:
  "(let st1 = snd (useLocationAuth tm_off antipode_props initial_state);
        r = fst (useLocationAuth tm_on antipode_props st1)
    in isBypassLocationCheck tm_on \<and> \<not> isWithinRange r)"
  by (simp add: useLocationAuth_def useMemo_def isWithinRange_calculate_def
      initial_state_def tm_on_def tm_off_def antipode_props_def Let_def)

text \<open>
  Claim C8. With the bypass off and no current location the hook reports distance = null
  and isWithinRange = false. The distance is null on every such render
  (\<open>distance_render\<close>); isWithinRange is false while the memo cell agrees with the flag
  (\<open>useLocationAuth_memo_agrees\<close>), and true in this run: the first render happens
  under the bypass and stores true, the flag goes off, the geolocation request fails,
  and the render after it reports isWithinRange = true with no current location.
\<close>

theorem useLocationAuth_stale_without_location:
  "(let st1 = snd (useLocationAuth tm_on antipode_props initial_state);
        st2 = run_effects (fst (getCurrentLocation tm_off pf_unsupported False)) st1;
        r = fst (useLocationAuth tm_off antipode_props st2)
    in \<not> isBypassLocationCheck tm_off
       \<and> currentLocation r = None
       \<and> locationError r = Some msg_unsupported_browser
       \<and> distance r = None
       \<and> isWithinRange r)"
  by (simp add: useLocationAuth_def useMemo_def isWithinRange_calculate_def
      getCurrentLocation_def getCurrentLocation_try_cases getCurrentLocationWithKakao_def
      run_effects_def initial_state_def tm_on_def tm_off_def pf_unsupported_def
      antipode_props_def Let_def)

section \<open>Results about SpotList\<close>

lemma cards_length: "length (cards (SpotList spots)) = length spots"
  by (simp add: SpotList_def)

lemma cards_nth: "i < length spots \<Longrightarrow> cards (SpotList spots) ! i = spotCard i (spots ! i)"
  by (simp add: SpotList_def nth_enumerate_eq)

lemma district_names:
  "map (\<lambda>d. name (getDistrictInfo (ascii d))) [''jung'', ''nam'', ''dong'', ''buk'', ''ulju'']
   = [name_jung, name_nam, name_dong, name_buk, name_ulju]"
  by (simp add: getDistrictInfo_def)

lemma district_default:
  "d \<notin> set (map ascii [''jung'', ''nam'', ''dong'', ''buk'', ''ulju''])
   \<Longrightarrow> getDistrictInfo d
       = \<lparr>name = name_other, color = ascii ''bg-gray-500'', textColor = ascii ''text-gray-600''\<rparr>"
  by (simp add: getDistrictInfo_def)

lemmas category_literals = cat_culture_def cat_nature_def cat_history_def cat_shopping_def
  cat_lodging_def cat_experience_def cat_leisure_def cat_food_def cat_course_def
  cat_festival_def

lemma category_icons:
  "map getCategoryIcon
     [cat_culture, cat_nature, cat_history, cat_shopping, cat_lodging, cat_experience,
      cat_leisure, cat_food, cat_course, cat_festival]
   = [Star, TreePine, Building, ShoppingBag, Bed, Camera, Zap, Utensils, Route, Calendar]"
  by (simp add: getCategoryIcon_def category_literals)

lemma category_colors:
  "map getCategoryColor
     [cat_culture, cat_nature, cat_history, cat_shopping, cat_lodging, cat_experience,
      cat_leisure, cat_food, cat_course, cat_festival]
   = [ascii ''text-blue-600 bg-blue-50'', ascii ''text-emerald-600 bg-emerald-50'',
      ascii ''text-violet-600 bg-violet-50'', ascii ''text-emerald-600 bg-emerald-50'',
      ascii ''text-amber-600 bg-amber-50'', ascii ''text-pink-600 bg-pink-50'',
      ascii ''text-red-600 bg-red-50'', ascii ''text-orange-600 bg-orange-50'',
      ascii ''text-violet-600 bg-violet-50'', ascii ''text-red-600 bg-red-50'']"
  by (simp add: getCategoryColor_def category_literals)

lemma category_default:
  "c \<notin> set [cat_culture, cat_nature, cat_history, cat_shopping, cat_lodging, cat_experience,
             cat_leisure, cat_food, cat_course, cat_festival]
   \<Longrightarrow> getCategoryIcon c = MapPin \<and> getCategoryColor c = ascii ''text-gray-600 bg-gray-50''"
  by (simp add: getCategoryIcon_def getCategoryColor_def)

text \<open>
  Claim C7. SpotList renders one card per spot, in the order of the list. The card of a
  spot shows the district name that getDistrictInfo gives for the spot's district code,
  the category label with the category's icon and colour, and the spot's coins; its foot
  is the visit-complete indicator when the spot is visited, and the detail link with the
  check-in button for this spot when it is not. The five district codes map to their
  five names and every other code to the name for the rest; the ten categories map to
  their ten icons and colours and every other category to the map pin in grey.
\<close>

theorem SpotList_cards:
  "length (cards (SpotList spots)) = length spots
   \<and> (\<forall>i < length spots.
        let spot = spots ! i; c = cards (SpotList spots) ! i
        in key c = spot_id spot
           \<and> districtLabel c = (textColor (getDistrictInfo (district spot)),
                                 name (getDistrictInfo (district spot)))
           \<and> categoryBadge c = (getCategoryColor (category spot),
                                 getCategoryIcon (category spot), category spot)
           \<and> coinBadge c = coins spot
           \<and> footer c = (if visited spot then VisitComplete CheckCircle txt_visit_complete
                          else Actions (ascii ''/spot/'' @ spot_id spot) spot))
   \<and> map (\<lambda>d. name (getDistrictInfo (ascii d))) [''jung'', ''nam'', ''dong'', ''buk'', ''ulju'']
       = [name_jung, name_nam, name_dong, name_buk, name_ulju]
   \<and> (d \<notin> set (map ascii [''jung'', ''nam'', ''dong'', ''buk'', ''ulju''])
        \<longrightarrow> name (getDistrictInfo d) = name_other)
   \<and> map getCategoryIcon
        [cat_culture, cat_nature, cat_history, cat_shopping, cat_lodging, cat_experience,
         cat_leisure, cat_food, cat_course, cat_festival]
       = [Star, TreePine, Building, ShoppingBag, Bed, Camera, Zap, Utensils, Route, Calendar]
   \<and> map getCategoryColor
        [cat_culture, cat_nature, cat_history, cat_shopping, cat_lodging, cat_experience,
         cat_leisure, cat_food, cat_course, cat_festival]
       = [ascii ''text-blue-600 bg-blue-50'', ascii ''text-emerald-600 bg-emerald-50'',
          ascii ''text-violet-600 bg-violet-50'', ascii ''text-emerald-600 bg-emerald-50'',
          ascii ''text-amber-600 bg-amber-50'', ascii ''text-pink-600 bg-pink-50'',
          ascii ''text-red-600 bg-red-50'', ascii ''text-orange-600 bg-orange-50'',
          ascii ''text-violet-600 bg-violet-50'', ascii ''text-red-600 bg-red-50'']
   \<and> (c \<notin> set [cat_culture, cat_nature, cat_history, cat_shopping, cat_lodging,
                  cat_experience, cat_leisure, cat_food, cat_course, cat_festival]
        \<longrightarrow> getCategoryIcon c = MapPin
            \<and> getCategoryColor c = ascii ''text-gray-600 bg-gray-50'')"
proof -
  have cards: "\<forall>i < length spots.
        let spot = spots ! i; c = cards (SpotList spots) ! i
        in key c = spot_id spot
           \<and> districtLabel c = (textColor (getDistrictInfo (district spot)),
                                 name (getDistrictInfo (district spot)))
           \<and> categoryBadge c = (getCategoryColor (category spot),
                                 getCategoryIcon (category spot), category spot)
           \<and> coinBadge c = coins spot
           \<and> footer c = (if visited spot then VisitComplete CheckCircle txt_visit_complete
                          else Actions (ascii ''/spot/'' @ spot_id spot) spot)"
    by (simp add: cards_nth spotCard_def Let_def)
  have dd: "d \<notin> set (map ascii [''jung'', ''nam'', ''dong'', ''buk'', ''ulju''])
        \<longrightarrow> name (getDistrictInfo d) = name_other"
    using district_default[of d] by simp
  have cd: "c \<notin> set [cat_culture, cat_nature, cat_history, cat_shopping, cat_lodging,
                  cat_experience, cat_leisure, cat_food, cat_course, cat_festival]
        \<longrightarrow> getCategoryIcon c = MapPin
            \<and> getCategoryColor c = ascii ''text-gray-600 bg-gray-50''"
    using category_default[of c] by blast
  show ?thesis
    using cards_length[of spots] cards district_names dd category_icons category_colors cd
    by (intro conjI)
qed

theorem SpotList_cards_witness:
  "length (cards (SpotList [example_spot, example_spot\<lparr>visited := True\<rparr>])) = 2
   \<and> districtLabel (cards (SpotList [example_spot, example_spot\<lparr>visited := True\<rparr>]) ! 0)
       = (ascii ''text-blue-600'', name_nam)
   \<and> categoryBadge (cards (SpotList [example_spot, example_spot\<lparr>visited := True\<rparr>]) ! 0)
       = (ascii ''text-emerald-600 bg-emerald-50'', TreePine, cat_nature)
   \<and> coinBadge (cards (SpotList [example_spot, example_spot\<lparr>visited := True\<rparr>]) ! 0) = 10
   \<and> footer (cards (SpotList [example_spot, example_spot\<lparr>visited := True\<rparr>]) ! 0)
       = Actions (ascii ''/spot/126508'') example_spot
   \<and> footer (cards (SpotList [example_spot, example_spot\<lparr>visited := True\<rparr>]) ! 1)
       = VisitComplete CheckCircle txt_visit_complete
   \<and> name (getDistrictInfo (ascii ''seoul'')) = name_other
   \<and> getCategoryIcon (ascii ''museum'') = MapPin"
proof -
  let ?L = "[example_spot, example_spot\<lparr>visited := True\<rparr>]"
  note t = SpotList_cards[of ?L "ascii ''seoul''" "ascii ''museum''"]
  have len: "length (cards (SpotList ?L)) = 2" using t by simp
  have i0: "(0::nat) < length ?L" and i1: "(1::nat) < length ?L" by simp_all
  note a0 = t[THEN conjunct2, THEN conjunct1, rule_format, OF i0]
  note a1 = t[THEN conjunct2, THEN conjunct1, rule_format, OF i1]
  have h1: "ascii ''seoul'' \<notin> set (map ascii [''jung'', ''nam'', ''dong'', ''buk'', ''ulju''])"
    by simp
  have h2: "ascii ''museum'' \<notin> set [cat_culture, cat_nature, cat_history, cat_shopping,
              cat_lodging, cat_experience, cat_leisure, cat_food, cat_course, cat_festival]"
    by (simp add: category_literals)
  note dflt = t[THEN conjunct2, THEN conjunct2, THEN conjunct2, THEN conjunct1,
                rule_format, OF h1]
  note icons = t[THEN conjunct2, THEN conjunct2, THEN conjunct2, THEN conjunct2,
                 THEN conjunct1]
  note colors = t[THEN conjunct2, THEN conjunct2, THEN conjunct2, THEN conjunct2,
                  THEN conjunct2, THEN conjunct1]
  note cdflt = t[THEN conjunct2, THEN conjunct2, THEN conjunct2, THEN conjunct2,
                 THEN conjunct2, THEN conjunct2, rule_format, OF h2]
  have ic: "getCategoryIcon cat_nature = TreePine" using icons by simp
  have co: "getCategoryColor cat_nature = ascii ''text-emerald-600 bg-emerald-50''"
    using colors by simp
  have d: "getDistrictInfo (district example_spot)
       = \<lparr>name = name_nam, color = ascii ''bg-blue-500'', textColor = ascii ''text-blue-600''\<rparr>"
    by (simp add: example_spot_def getDistrictInfo_def)
  have v: "\<not> visited example_spot" "spot_id example_spot = ascii ''126508''"
    "coins example_spot = 10" "category example_spot = cat_nature"
    by (simp_all add: example_spot_def)
  show ?thesis
    using len a0 a1 dflt cdflt by (simp add: Let_def d v ic co)
qed

text \<open>
  Claim C9. For a visited spot handleCheckInClick does not navigate, and the card of a
  visited spot has no check-in button; in test mode it does not navigate either when
  there is no test spot detail for the spot's id.
\<close>

theorem handleCheckInClick_no_navigation:
  "(visited spot \<longrightarrow>
      handleCheckInClick tm enc spot = [PreventDefault, StopPropagation]
      \<and> footer (spotCard i spot) = VisitComplete CheckCircle txt_visit_complete)
   \<and> (isTestMode tm \<and> getTestSpotDetail tm (spot_id spot) = None \<longrightarrow>
      handleCheckInClick tm enc spot = [PreventDefault, StopPropagation])"
  by (simp add: handleCheckInClick_def spotCard_def Let_def)

theorem handleCheckInClick_no_navigation_witness:
  "handleCheckInClick (tm_off\<lparr>isTestMode := False\<rparr>) Some (example_spot\<lparr>visited := True\<rparr>)
     = [PreventDefault, StopPropagation]
   \<and> footer (spotCard 0 (example_spot\<lparr>visited := True\<rparr>))
     = VisitComplete CheckCircle txt_visit_complete
   \<and> handleCheckInClick tm_off Some example_spot = [PreventDefault, StopPropagation]"
proof -
  have v: "visited (example_spot\<lparr>visited := True\<rparr>)" by simp
  have t: "isTestMode tm_off \<and> getTestSpotDetail tm_off (spot_id example_spot) = None"
    by (simp add: tm_off_def)
  note a = handleCheckInClick_no_navigation[of "example_spot\<lparr>visited := True\<rparr>"
             "tm_off\<lparr>isTestMode := False\<rparr>" Some 0, THEN conjunct1, rule_format, OF v]
  note b = handleCheckInClick_no_navigation[of example_spot tm_off Some 0,
             THEN conjunct2, rule_format, OF t]
  show ?thesis using a b by simp
qed

text \<open>A click on the button of an unvisited spot outside test mode navigates.\<close>

lemma handleCheckInClick_navigates:
  "handleCheckInClick (tm_off\<lparr>isTestMode := False\<rparr>) Some example_spot
   = [PreventDefault, StopPropagation,
      Navigate (ascii ''/checkin?contentId=126508&contentType=12&fromSpotId=126508'')]"
  by (simp add: handleCheckInClick_def example_spot_def tm_off_def)

section \<open>Results about the check-in\<close>

text \<open>
  Claim C6. A check-in performed within the allowed radius of the spot's coordinates
  marks the spot visited and adds the spot's coins to the user's.
\<close>

theorem checkIn_within_radius:
  assumes "calculateDistance userLocation (coordinates spot) \<le> radius"
  shows "checkIn userLocation radius spot userCoins
         = Some (spot\<lparr>visited := True\<rparr>, userCoins + coins spot)
         \<and> visited (fst (the (checkIn userLocation radius spot userCoins)))
         \<and> snd (the (checkIn userLocation radius spot userCoins)) = userCoins + coins spot"
  using assms by (simp add: checkIn_def)

theorem checkIn_within_radius_witness:
  "calculateDistance (coordinates example_spot) (coordinates example_spot) \<le> 300
   \<and> checkIn (coordinates example_spot) 300 example_spot 5
     = Some (example_spot\<lparr>visited := True\<rparr>, 15)"
proof -
  have z: "calculateDistance (coordinates example_spot) (coordinates example_spot) = 0"
    by (simp add: calculateDistance_def atan2_def)
  then have h: "calculateDistance (coordinates example_spot) (coordinates example_spot) \<le> 300"
    by simp
  have c: "coins example_spot = 10" by (simp add: example_spot_def)
  show ?thesis
    using h checkIn_within_radius[OF h, of 5] by (simp add: c)
qed

end
